theory Spec2Isabelle
  imports Complex_Main
begin

section \<open>The MRM emergency stop operator\<close>

text \<open>
  A shallow embedding of \<^verbatim>\<open>mrm_emergency_stop_operator_core.cpp\<close>: the node's members
  are a record, each callback is a function from the node (and its argument) to the
  updated node and what the callback publishes or answers.

  Numbers. The fields of a command are \<^verbatim>\<open>float\<close> and the ramp computes in \<^verbatim>\<open>double\<close>. A
  value of either type is a finite number, an infinity or NaN (the type \<open>fp\<close> below); a
  comparison with NaN is false, so \<^verbatim>\<open>std::max\<close> lets a NaN first argument through. On
  finite numbers the arithmetic of lines 127-131 is exact. The narrowing
  \<^verbatim>\<open>static_cast<float>\<close> of lines 114, 127, 129 and 135 keeps an infinity and NaN; what it
  makes of a finite number is the function \<open>f32\<close> that every function calling the ramp
  takes as its first argument, since the message types are declared outside this file.
  A theorem that needs a property of the narrowing (monotone, exact on a value that
  already is a \<^verbatim>\<open>float\<close>) says so. The parameters are a configuration of finite numbers.

  Time. A time point is a number of nanoseconds, as in \<^verbatim>\<open>rclcpp::Time\<close>;
  \<^verbatim>\<open>Duration::seconds()\<close> divides by \<open>10\<^sup>9\<close>. The source calls \<^verbatim>\<open>this->now()\<close>
  several times during one tick (lines 84, 111-126); here all of them return the same
  reading, the argument \<open>now\<close> of the tick. Converting between a message stamp and
  a time point is taken to be exact; the range checks \<^verbatim>\<open>rclcpp\<close> makes on time points
  (a negative stamp, an overflow of 64 bits) are outside this file and are left out.
\<close>

subsection \<open>Numbers\<close>

datatype fp = NaN | MInf | Fin real | PInf

text \<open>The comparisons \<^verbatim>\<open><\<close>, \<^verbatim>\<open><=\<close> and \<^verbatim>\<open>==\<close>: false as soon as one side is NaN.\<close>

fun fp_less :: "fp \<Rightarrow> fp \<Rightarrow> bool" where
  "fp_less NaN b = False"
| "fp_less a NaN = False"
| "fp_less (Fin x) (Fin y) = (x < y)"
| "fp_less a MInf = False"
| "fp_less PInf b = False"
| "fp_less MInf b = True"
| "fp_less a PInf = True"

fun fp_le :: "fp \<Rightarrow> fp \<Rightarrow> bool" where
  "fp_le NaN b = False"
| "fp_le a NaN = False"
| "fp_le (Fin x) (Fin y) = (x \<le> y)"
| "fp_le MInf b = True"
| "fp_le a PInf = True"
| "fp_le a MInf = False"
| "fp_le PInf b = False"

definition fp_eq :: "fp \<Rightarrow> fp \<Rightarrow> bool" where
  "fp_eq a b \<longleftrightarrow> a \<noteq> NaN \<and> b \<noteq> NaN \<and> a = b"

text \<open>Sum and product: exact on finite numbers, otherwise as IEEE 754 has them.\<close>

fun fp_add :: "fp \<Rightarrow> fp \<Rightarrow> fp" where
  "fp_add NaN b = NaN"
| "fp_add a NaN = NaN"
| "fp_add (Fin x) (Fin y) = Fin (x + y)"
| "fp_add PInf MInf = NaN"
| "fp_add MInf PInf = NaN"
| "fp_add PInf b = PInf"
| "fp_add MInf b = MInf"
| "fp_add a PInf = PInf"
| "fp_add a MInf = MInf"

fun fp_mul :: "fp \<Rightarrow> fp \<Rightarrow> fp" where
  "fp_mul NaN b = NaN"
| "fp_mul a NaN = NaN"
| "fp_mul (Fin x) (Fin y) = Fin (x * y)"
| "fp_mul (Fin x) PInf = (if 0 < x then PInf else if x < 0 then MInf else NaN)"
| "fp_mul (Fin x) MInf = (if 0 < x then MInf else if x < 0 then PInf else NaN)"
| "fp_mul PInf (Fin y) = (if 0 < y then PInf else if y < 0 then MInf else NaN)"
| "fp_mul MInf (Fin y) = (if 0 < y then MInf else if y < 0 then PInf else NaN)"
| "fp_mul PInf PInf = PInf"
| "fp_mul MInf MInf = PInf"
| "fp_mul PInf MInf = MInf"
| "fp_mul MInf PInf = MInf"

text \<open>\<^verbatim>\<open>std::max(a, b)\<close> is \<^verbatim>\<open>(a < b) ? b : a\<close>.\<close>

definition std_max :: "fp \<Rightarrow> fp \<Rightarrow> fp" where
  "std_max a b = (if fp_less a b then b else a)"

text \<open>\<^verbatim>\<open>static_cast<float>\<close> of a \<^verbatim>\<open>double\<close>, given what it makes of a finite number.\<close>

definition static_cast_float :: "(real \<Rightarrow> fp) \<Rightarrow> fp \<Rightarrow> fp" where
  "static_cast_float f32 a = (case a of Fin x \<Rightarrow> f32 x | _ \<Rightarrow> a)"

text \<open>
  What the theorems ask of a narrowing: it is monotone (so it never makes NaN of a
  number), and it keeps a value that it produced.
\<close>

definition narrowing_mono :: "(real \<Rightarrow> fp) \<Rightarrow> bool" where
  "narrowing_mono f32 \<longleftrightarrow> (\<forall>x y. x \<le> y \<longrightarrow> fp_le (f32 x) (f32 y))"


subsection \<open>Messages\<close>

type_synonym time = int

definition seconds :: "int \<Rightarrow> real" where
  "seconds d = real_of_int d / 1000000000"

record LongitudinalCommand =
  lon_stamp :: time
  speed :: fp
  acceleration :: fp
  jerk :: fp

record AckermannLateralCommand =
  lat_stamp :: time
  steering_tire_angle :: fp
  steering_tire_rotation_rate :: fp

record AckermannControlCommand =
  stamp :: time
  lateral :: AckermannLateralCommand
  longitudinal :: LongitudinalCommand

datatype behavior_state = AVAILABLE | OPERATING

record MrmBehaviorStatus =
  status_stamp :: time
  state :: behavior_state

text \<open>A message that was only default-constructed has every number zero.\<close>

definition AckermannLateralCommand0 :: AckermannLateralCommand where
  "AckermannLateralCommand0 =
     \<lparr>lat_stamp = 0, steering_tire_angle = Fin 0, steering_tire_rotation_rate = Fin 0\<rparr>"

definition LongitudinalCommand0 :: LongitudinalCommand where
  "LongitudinalCommand0 =
     \<lparr>lon_stamp = 0, speed = Fin 0, acceleration = Fin 0, jerk = Fin 0\<rparr>"

definition AckermannControlCommand0 :: AckermannControlCommand where
  "AckermannControlCommand0 =
     \<lparr>stamp = 0, lateral = AckermannLateralCommand0, longitudinal = LongitudinalCommand0\<rparr>"

subsection \<open>The node\<close>

record Param =
  update_rate :: int
  target_acceleration :: real
  target_jerk :: real
  steering_handling_type :: int

record node =
  params :: Param
  status :: MrmBehaviorStatus
  prev_control_cmd :: AckermannControlCommand
  is_prev_control_cmd_subscribed :: bool
  lateral_cmd_at_start_of_emergency_stop :: AckermannLateralCommand

text \<open>The constructor (lines 20-53), given the declared parameters.\<close>

definition MrmEmergencyStopOperator :: "Param \<Rightarrow> node" where
  "MrmEmergencyStopOperator p =
     \<lparr>params = p,
      status = \<lparr>status_stamp = 0, state = AVAILABLE\<rparr>,
      prev_control_cmd = AckermannControlCommand0,
      is_prev_control_cmd_subscribed = False,
      lateral_cmd_at_start_of_emergency_stop = AckermannLateralCommand0\<rparr>"

text \<open>Lines 55-61.\<close>

definition onControlCommand :: "AckermannControlCommand \<Rightarrow> node \<Rightarrow> node" where
  "onControlCommand msg s =
     (if state (status s) \<noteq> OPERATING
      then s\<lparr>prev_control_cmd := msg, is_prev_control_cmd_subscribed := True\<rparr>
      else s)"

text \<open>Lines 63-79. The second component is \<^verbatim>\<open>response->response.success\<close>.\<close>

definition operateEmergencyStop :: "bool \<Rightarrow> node \<Rightarrow> node \<times> bool" where
  "operateEmergencyStop operate s =
     (if operate then
        (let s1 =
           (if is_prev_control_cmd_subscribed s
            then s\<lparr>lateral_cmd_at_start_of_emergency_stop := lateral (prev_control_cmd s)\<rparr>
            else s\<lparr>lateral_cmd_at_start_of_emergency_stop :=
                     (lateral_cmd_at_start_of_emergency_stop s)
                       \<lparr>steering_tire_angle := Fin 0, steering_tire_rotation_rate := Fin 0\<rparr>\<rparr>)
         in (s1\<lparr>status := (status s1)\<lparr>state := OPERATING\<rparr>\<rparr>, True))
      else (s\<lparr>status := (status s)\<lparr>state := AVAILABLE\<rparr>\<rparr>, True))"

text \<open>Lines 81-86: the status that is published, a stamped copy of \<^verbatim>\<open>status_\<close>.\<close>

definition publishStatus :: "time \<Rightarrow> node \<Rightarrow> MrmBehaviorStatus" where
  "publishStatus now s = (status s)\<lparr>status_stamp := now\<rparr>"

text \<open>Lines 105-139.\<close>

definition calcTargetAcceleration ::
  "(real \<Rightarrow> fp) \<Rightarrow> time \<Rightarrow> node \<Rightarrow> AckermannControlCommand \<Rightarrow> AckermannControlCommand"
where
  "calcTargetAcceleration f32 now s prev =
     (if \<not> is_prev_control_cmd_subscribed s then
        \<lparr>stamp = now,
         lateral = \<lparr>lat_stamp = now, steering_tire_angle = Fin 0,
                    steering_tire_rotation_rate = Fin 0\<rparr>,
         longitudinal = \<lparr>lon_stamp = now, speed = Fin 0,
                         acceleration =
                           static_cast_float f32 (Fin (target_acceleration (params s))),
                         jerk = Fin 0\<rparr>\<rparr>
      else
        (let dt = Fin (seconds (now - stamp prev)) in
         prev\<lparr>stamp := now,
              longitudinal := (longitudinal prev)
                \<lparr>lon_stamp := now,
                 speed := static_cast_float f32
                   (std_max (fp_add (speed (longitudinal prev))
                                    (fp_mul (acceleration (longitudinal prev)) dt))
                            (Fin 0)),
                 acceleration := static_cast_float f32
                   (std_max (fp_add (acceleration (longitudinal prev))
                                    (fp_mul (Fin (target_jerk (params s))) dt))
                            (Fin (target_acceleration (params s)))),
                 jerk := (if fp_eq (acceleration (longitudinal prev))
                                   (Fin (target_acceleration (params s)))
                          then Fin 0
                          else static_cast_float f32 (Fin (target_jerk (params s))))\<rparr>\<rparr>))"

text \<open>
  Lines 93-103. The result is the node after the tick, the command given to
  \<^verbatim>\<open>publishControlCommand\<close> and the status given to \<^verbatim>\<open>pub_status_\<close>.
\<close>

definition onTimer ::
  "(real \<Rightarrow> fp) \<Rightarrow> time \<Rightarrow> node \<Rightarrow> node \<times> AckermannControlCommand \<times> MrmBehaviorStatus"
where
  "onTimer f32 now s =
     (if state (status s) = OPERATING then
        (let control_cmd = calcTargetAcceleration f32 now s (prev_control_cmd s);
             s1 = s\<lparr>prev_control_cmd := control_cmd\<rparr>
         in (s1, control_cmd, publishStatus now s1))
      else (s, prev_control_cmd s, publishStatus now s))"

subsection \<open>Executions\<close>

text \<open>
  The three callbacks never interleave. An execution is the list of the callbacks that
  ran, each with its argument: an upstream command, a takeover request, or a tick with
  its clock reading. Its trace is what the ticks published, oldest first.
\<close>

datatype event =
    ControlCommand AckermannControlCommand
  | Operate bool
  | Timer time

type_synonym publication = "AckermannControlCommand \<times> MrmBehaviorStatus"

fun step :: "(real \<Rightarrow> fp) \<Rightarrow> node \<Rightarrow> event \<Rightarrow> node \<times> publication list" where
  "step f32 s (ControlCommand msg) = (onControlCommand msg s, [])"
| "step f32 s (Operate b) = (fst (operateEmergencyStop b s), [])"
| "step f32 s (Timer now) = (case onTimer f32 now s of (s', c, st) \<Rightarrow> (s', [(c, st)]))"

fun run :: "(real \<Rightarrow> fp) \<Rightarrow> node \<Rightarrow> event list \<Rightarrow> node \<times> publication list" where
  "run f32 s [] = (s, [])"
| "run f32 s (e # es) =
     (case step f32 s e of (s1, out1) \<Rightarrow>
        (case run f32 s1 es of (s2, out2) \<Rightarrow> (s2, out1 @ out2)))"

text \<open>The clock readings of the ticks of an execution, in order.\<close>

fun ticks :: "event list \<Rightarrow> time list" where
  "ticks [] = []"
| "ticks (Timer t # es) = t # ticks es"
| "ticks (e # es) = ticks es"

text \<open>The events that call the takeover request handler.\<close>

definition is_request :: "event \<Rightarrow> bool" where
  "is_request e = (case e of Operate b \<Rightarrow> True | _ \<Rightarrow> False)"

subsection \<open>Two invariants of an emergency stop\<close>

text \<open>
  \<open>frozen s1 s\<close>: the node \<open>s\<close> is still in the stop that left the node \<open>s1\<close> right
  after its activation. The status, the flag and the snapshot are those of \<open>s1\<close>, and
  activating again would write the snapshot that is there already: the lateral part of
  the stored command when a command was observed, zero angle and rate otherwise.
\<close>

definition frozen :: "node \<Rightarrow> node \<Rightarrow> bool" where
  "frozen s1 s \<longleftrightarrow>
     status s = status s1 \<and> state (status s) = OPERATING
     \<and> is_prev_control_cmd_subscribed s = is_prev_control_cmd_subscribed s1
     \<and> lateral_cmd_at_start_of_emergency_stop s = lateral_cmd_at_start_of_emergency_stop s1
     \<and> (if is_prev_control_cmd_subscribed s1
          then lateral (prev_control_cmd s) = lateral_cmd_at_start_of_emergency_stop s1
          else steering_tire_angle (lateral_cmd_at_start_of_emergency_stop s1) = Fin 0
             \<and> steering_tire_rotation_rate (lateral_cmd_at_start_of_emergency_stop s1) = Fin 0)"


subsection \<open>Inputs for the examples\<close>

text \<open>
  The parameters as \<^verbatim>\<open>declare_parameter\<close> defaults them (lines 24-27), and the same with
  the target acceleration \<open>- 2.4\<close>, which is not a \<^verbatim>\<open>float\<close> value.
\<close>

definition default_params :: Param where
  "default_params =
     \<lparr>update_rate = 30, target_acceleration = - 5 / 2, target_jerk = - 3 / 2,
      steering_handling_type = 0\<rparr>"

definition params_2_4 :: Param where
  "params_2_4 = default_params\<lparr>target_acceleration := - 12 / 5\<rparr>"

text \<open>
  Five upstream commands, all stamped 0: driving at constant speed with the wheels
  turned, braking gently, braking harder than the target acceleration, reversing, and
  one whose speed is NaN.
\<close>

definition cruising :: AckermannControlCommand where
  "cruising =
     \<lparr>stamp = 0,
      lateral = \<lparr>lat_stamp = 0, steering_tire_angle = Fin (1 / 8),
                 steering_tire_rotation_rate = Fin 0\<rparr>,
      longitudinal = \<lparr>lon_stamp = 0, speed = Fin 10, acceleration = Fin 0, jerk = Fin 0\<rparr>\<rparr>"

definition braking :: AckermannControlCommand where
  "braking =
     \<lparr>stamp = 0,
      lateral = \<lparr>lat_stamp = 0, steering_tire_angle = Fin (1 / 8),
                 steering_tire_rotation_rate = Fin 0\<rparr>,
      longitudinal = \<lparr>lon_stamp = 0, speed = Fin 10, acceleration = Fin (- 2), jerk = Fin 0\<rparr>\<rparr>"

definition hard_braking :: AckermannControlCommand where
  "hard_braking =
     \<lparr>stamp = 0,
      lateral = \<lparr>lat_stamp = 0, steering_tire_angle = Fin 0,
                 steering_tire_rotation_rate = Fin 0\<rparr>,
      longitudinal = \<lparr>lon_stamp = 0, speed = Fin 10, acceleration = Fin (- 3), jerk = Fin 0\<rparr>\<rparr>"

definition reversing :: AckermannControlCommand where
  "reversing =
     \<lparr>stamp = 0,
      lateral = \<lparr>lat_stamp = 0, steering_tire_angle = Fin 0,
                 steering_tire_rotation_rate = Fin 0\<rparr>,
      longitudinal = \<lparr>lon_stamp = 0, speed = Fin (- 1), acceleration = Fin (- 1), jerk = Fin 0\<rparr>\<rparr>"

definition nan_speed :: AckermannControlCommand where
  "nan_speed =
     \<lparr>stamp = 0,
      lateral = \<lparr>lat_stamp = 0, steering_tire_angle = Fin 0,
                 steering_tire_rotation_rate = Fin 0\<rparr>,
      longitudinal = \<lparr>lon_stamp = 0, speed = NaN, acceleration = Fin (- 1), jerk = Fin 0\<rparr>\<rparr>"

text \<open>
  Two narrowings instantiate \<open>f32\<close> in the examples: \<open>Fin\<close>, which loses nothing, and
  \<open>grid\<close>, rounding to the nearest multiple of \<open>1 / 4194304\<close>. Between 2 and 4 in absolute
  value that is the spacing of \<^verbatim>\<open>float\<close>, so \<open>grid\<close> makes of \<open>- 2.4\<close> what the cast makes
  of it, \<open>- 2.400000095367431640625\<close>. It is monotone and keeps a value it produced.
\<close>

definition grid :: "real \<Rightarrow> fp" where
  "grid x = Fin (real_of_int (round (x * 4194304)) / 4194304)"

section \<open>Lemmas\<close>

subsection \<open>Numbers\<close>
















subsection \<open>Executions, step by step\<close>

lemmas handler_defs = onControlCommand_def operateEmergencyStop_def onTimer_def
  calcTargetAcceleration_def publishStatus_def

lemmas example_defs = default_params_def params_2_4_def cruising_def braking_def
  hard_braking_def reversing_def nan_speed_def MrmEmergencyStopOperator_def
  AckermannControlCommand0_def AckermannLateralCommand0_def LongitudinalCommand0_def

lemmas eval_defs = example_defs handler_defs seconds_def Let_def std_max_def
  static_cast_float_def fp_eq_def

lemma fst_run_Cons: "fst (run f32 s (e # es)) = fst (run f32 (fst (step f32 s e)) es)"
  by (simp split: prod.splits)


lemma run_append:
  "run f32 s (xs @ ys) =
     (case run f32 s xs of (s1, o1) \<Rightarrow>
        (case run f32 s1 ys of (s2, o2) \<Rightarrow> (s2, o1 @ o2)))"
  by (induction xs arbitrary: s) (auto split: prod.splits)

lemma fst_run_append: "fst (run f32 s (xs @ ys)) = fst (run f32 (fst (run f32 s xs)) ys)"
  by (simp add: run_append split: prod.splits)

lemma snd_run_append:
  "snd (run f32 s (xs @ ys)) = snd (run f32 s xs) @ snd (run f32 (fst (run f32 s xs)) ys)"
  by (simp add: run_append split: prod.splits)

lemma ticks_append: "ticks (xs @ ys) = ticks xs @ ticks ys"
  by (induction xs rule: ticks.induct) simp_all


text \<open>
  The state at the end of an execution is decided by the state at its start and the
  requests among its events: the ticks and the inbound commands can be left out.
\<close>

lemma state_step_other: "\<not> is_request e \<Longrightarrow> state (status (fst (step f32 s e))) = state (status s)"
  by (cases e) (simp_all add: is_request_def onControlCommand_def onTimer_def Let_def)

lemma state_step_request:
  "state (status (fst (step f32 s (Operate b)))) = (if b then OPERATING else AVAILABLE)"
  by (simp add: operateEmergencyStop_def Let_def)

lemma state_run_requests:
  "state (status s) = state (status s') \<Longrightarrow>
   state (status (fst (run f32 s es))) = state (status (fst (run f32 s' (filter is_request es))))"
proof (induction es arbitrary: s s')
  case Nil
  then show ?case by simp
next
  case (Cons e es)
  show ?case
  proof (cases "is_request e")
    case True
    then obtain b where e: "e = Operate b"
      by (cases e) (simp_all add: is_request_def)
    have "state (status (fst (step f32 s e))) = state (status (fst (step f32 s' e)))"
      unfolding e by (simp only: state_step_request)
    from Cons.IH [OF this] True show ?thesis
      by (simp add: fst_run_Cons del: run.simps(2) step.simps)
  next
    case False
    with Cons.prems have "state (status (fst (step f32 s e))) = state (status s')"
      by (simp add: state_step_other del: step.simps)
    from Cons.IH [OF this] False show ?thesis
      by (simp add: fst_run_Cons del: run.simps(2) step.simps)
  qed
qed




lemma step_available_publication:
  assumes "(c, st) \<in> set (snd (step f32 s e))" "state st \<noteq> OPERATING"
  shows "c = prev_control_cmd s"
  using assms by (cases e) (auto simp: onTimer_def publishStatus_def Let_def split: if_splits)

text \<open>Until a deactivation the node stays \<open>OPERATING\<close>.\<close>

lemma operating_step:
  "state (status s) = OPERATING \<Longrightarrow> e \<noteq> Operate False \<Longrightarrow>
   state (status (fst (step f32 s e))) = OPERATING"
  by (cases e) (auto simp: handler_defs Let_def)

lemma operating_run:
  "state (status s) = OPERATING \<Longrightarrow> Operate False \<notin> set es \<Longrightarrow>
   state (status (fst (run f32 s es))) = OPERATING"
proof (induction es arbitrary: s)
  case Nil
  then show ?case by simp
next
  case (Cons e es)
  then have "state (status (fst (step f32 s e))) = OPERATING"
    by (intro operating_step) auto
  with Cons show ?case by (simp add: fst_run_Cons del: run.simps(2))
qed

text \<open>
  While operating, the stored command is the last command that was published: a tick
  stores what it publishes, and nothing else writes \<^verbatim>\<open>prev_control_cmd_\<close>.
\<close>

lemma operating_last_publication:
  assumes "state (status s) = OPERATING" "Operate False \<notin> set es" "ticks es \<noteq> []"
  shows "snd (run f32 s es) \<noteq> []
         \<and> prev_control_cmd (fst (run f32 s es)) = fst (last (snd (run f32 s es)))
         \<and> state (snd (last (snd (run f32 s es)))) = OPERATING"
  using assms(2,3)
proof (induction es rule: rev_induct)
  case Nil
  then show ?case by simp
next
  case (snoc e es)
  let ?s1 = "fst (run f32 s es)"
  from snoc.prems(1) have no: "Operate False \<notin> set es" and e: "e \<noteq> Operate False"
    by auto
  have op: "state (status ?s1) = OPERATING"
    using assms(1) no by (rule operating_run)
  have run1: "fst (run f32 s (es @ [e])) = fst (step f32 ?s1 e)"
    and out1: "snd (run f32 s (es @ [e])) = snd (run f32 s es) @ snd (step f32 ?s1 e)"
    by (simp_all add: fst_run_append snd_run_append split: prod.splits)
  show ?case
  proof (cases e)
    case (Timer t)
    with op show ?thesis
      unfolding run1 out1 by (simp add: onTimer_def publishStatus_def Let_def)
  next
    case (ControlCommand msg)
    with snoc.prems(2) have "ticks es \<noteq> []" by (simp add: ticks_append)
    with snoc.IH no ControlCommand op show ?thesis
      unfolding run1 out1 by (simp add: onControlCommand_def)
  next
    case (Operate b)
    with snoc.prems(2) have "ticks es \<noteq> []" by (simp add: ticks_append)
    with snoc.IH no Operate e show ?thesis
      unfolding run1 out1 by (simp add: operateEmergencyStop_def Let_def)
  qed
qed

subsection \<open>One step of the ramp\<close>







lemma calc_lateral:
  "is_prev_control_cmd_subscribed s \<Longrightarrow>
   lateral (calcTargetAcceleration f32 now s prev) = lateral prev"
  by (simp add: calcTargetAcceleration_def Let_def)



subsection \<open>The settled ramp\<close>




subsection \<open>The stop, once activated\<close>

lemma frozen_activate:
  "frozen (fst (operateEmergencyStop True s)) (fst (operateEmergencyStop True s))"
  by (simp add: frozen_def operateEmergencyStop_def Let_def)

lemma frozen_step: "frozen s1 s \<Longrightarrow> e \<noteq> Operate False \<Longrightarrow> frozen s1 (fst (step f32 s e))"
  by (cases e) (auto simp: frozen_def handler_defs Let_def split: prod.splits)

lemma frozen_run: "frozen s1 s \<Longrightarrow> Operate False \<notin> set es \<Longrightarrow> frozen s1 (fst (run f32 s es))"
proof (induction es arbitrary: s)
  case Nil
  then show ?case by simp
next
  case (Cons e es)
  then have "frozen s1 (fst (step f32 s e))" by (intro frozen_step) auto
  with Cons show ?case by (simp add: fst_run_Cons del: run.simps(2))
qed

lemma frozen_reactivate:
  "frozen s1 s \<Longrightarrow>
   status (fst (operateEmergencyStop True s)) = status s1
   \<and> lateral_cmd_at_start_of_emergency_stop (fst (operateEmergencyStop True s))
      = lateral_cmd_at_start_of_emergency_stop s1"
  by (auto simp: frozen_def operateEmergencyStop_def Let_def split: if_splits)

subsection \<open>The snapshot of the lateral command is never read\<close>

lemma step_snapshot:
  "step f32 (s\<lparr>lateral_cmd_at_start_of_emergency_stop := v\<rparr>) e =
     ((fst (step f32 s e))\<lparr>lateral_cmd_at_start_of_emergency_stop :=
         lateral_cmd_at_start_of_emergency_stop
           (fst (step f32 (s\<lparr>lateral_cmd_at_start_of_emergency_stop := v\<rparr>) e))\<rparr>,
      snd (step f32 s e))"
  by (cases e) (auto simp: handler_defs Let_def split: prod.splits)

lemma run_snapshot:
  "\<exists>v'. run f32 (s\<lparr>lateral_cmd_at_start_of_emergency_stop := v\<rparr>) es =
     ((fst (run f32 s es))\<lparr>lateral_cmd_at_start_of_emergency_stop := v'\<rparr>, snd (run f32 s es))"
proof (induction es arbitrary: s v)
  case Nil
  show ?case by (rule exI [of _ v]) simp
next
  case (Cons e es)
  obtain v1 where st: "step f32 (s\<lparr>lateral_cmd_at_start_of_emergency_stop := v\<rparr>) e =
     ((fst (step f32 s e))\<lparr>lateral_cmd_at_start_of_emergency_stop := v1\<rparr>, snd (step f32 s e))"
    using step_snapshot by blast
  from Cons.IH [where s = "fst (step f32 s e)" and v = v1] obtain v2 where
    "run f32 ((fst (step f32 s e))\<lparr>lateral_cmd_at_start_of_emergency_stop := v1\<rparr>) es =
     ((fst (run f32 (fst (step f32 s e)) es))\<lparr>lateral_cmd_at_start_of_emergency_stop := v2\<rparr>,
      snd (run f32 (fst (step f32 s e)) es))" by blast
  with st show ?case by (auto split: prod.splits)
qed

subsection \<open>The example narrowings\<close>

lemma mono_Fin: "narrowing_mono Fin"
  by (simp add: narrowing_mono_def)




lemma grid_2_4: "grid (- 12 / 5) = Fin (- 5033165 / 2097152)"
  by (simp add: grid_def round_def)

section \<open>The claims\<close>

subsection \<open>C1: the first tick after a deactivation\<close>

text \<open>
  As stated, the claim fails. The node has one buffer, \<^verbatim>\<open>prev_control_cmd_\<close>: an
  \<open>OPERATING\<close> tick overwrites the upstream command it holds with the ramp's output
  (line 98), so after a deactivation the next tick republishes that output. With the
  default parameters: \<open>cruising\<close> is observed, the stop is activated, one tick runs a
  second later, the stop is deactivated, and the next tick publishes the ramp's output
  of the tick before, not \<open>cruising\<close>.
\<close>

theorem deactivation_republishes_upstream_counterexample:
  "fst (last (snd (run Fin (MrmEmergencyStopOperator default_params)
     [ControlCommand cruising, Operate True, Timer 1000000000, Operate False, Timer 2000000000])))
   = cruising\<lparr>stamp := 1000000000,
       longitudinal := \<lparr>lon_stamp = 1000000000, speed = Fin 10, acceleration = Fin (- 3 / 2),
                        jerk = Fin (- 3 / 2)\<rparr>\<rparr>
   \<and> fst (last (snd (run Fin (MrmEmergencyStopOperator default_params)
     [ControlCommand cruising, Operate True, Timer 1000000000, Operate False, Timer 2000000000])))
   \<noteq> cruising"
  by (simp add: eval_defs)

text \<open>
  Claim C1, amended. From any node: the stop is activated, the events \<open>mid\<close> follow, with
  at least one tick and no deactivation among them, then the stop is deactivated and a
  tick follows at once. That tick publishes one more command, while \<open>AVAILABLE\<close>, and it
  is the command the last \<open>OPERATING\<close> tick published: the last output of the ramp.
\<close>

theorem deactivation_republishes_last_ramp_output:
  assumes "Operate False \<notin> set mid" "ticks mid \<noteq> []"
  shows "snd (run f32 s (Operate True # mid @ [Operate False, Timer t])) =
           snd (run f32 s (Operate True # mid))
           @ [(fst (last (snd (run f32 s (Operate True # mid)))),
               publishStatus t (fst (run f32 s (Operate True # mid @ [Operate False]))))]
       \<and> state (snd (last (snd (run f32 s (Operate True # mid))))) = OPERATING
       \<and> state (status (fst (run f32 s (Operate True # mid @ [Operate False])))) = AVAILABLE"
proof -
  let ?s1 = "fst (step f32 s (Operate True))"
  let ?s2 = "fst (run f32 ?s1 mid)"
  let ?s3 = "fst (step f32 ?s2 (Operate False))"
  have "state (status ?s1) = OPERATING"
    by (simp add: operateEmergencyStop_def Let_def)
  from operating_last_publication [OF this assms]
  have last: "prev_control_cmd ?s2 = fst (last (snd (run f32 ?s1 mid)))"
    and op: "state (snd (last (snd (run f32 ?s1 mid)))) = OPERATING"
    by simp_all
  have s3: "prev_control_cmd ?s3 = prev_control_cmd ?s2" "state (status ?s3) = AVAILABLE"
    by (simp_all add: operateEmergencyStop_def)
  have whole: "run f32 s (Operate True # mid @ [Operate False, Timer t]) =
      (fst (step f32 ?s3 (Timer t)), snd (run f32 ?s1 mid) @ snd (step f32 ?s3 (Timer t)))"
    and upto: "fst (run f32 s (Operate True # mid @ [Operate False])) = ?s3"
    and before: "snd (run f32 s (Operate True # mid)) = snd (run f32 ?s1 mid)"
    by (simp_all add: run_append split: prod.splits)
  have tick: "snd (step f32 ?s3 (Timer t)) = [(prev_control_cmd ?s3, publishStatus t ?s3)]"
    using s3(2) by (simp add: onTimer_def)
  show ?thesis
    unfolding whole upto before using tick s3 last op by simp
qed

text \<open>
  An instance: \<open>cruising\<close> was observed; two ticks run during the stop, an upstream
  command arrives between them and is ignored; the tick after the deactivation
  republishes the output of the second of them.
\<close>

theorem deactivation_republishes_last_ramp_output_witness:
  "Operate False \<notin> set [Timer 1000000000, ControlCommand hard_braking, Timer 2000000000]
   \<and> ticks [Timer 1000000000, ControlCommand hard_braking, Timer 2000000000] \<noteq> []
   \<and> fst (last (snd (run grid (onControlCommand cruising (MrmEmergencyStopOperator default_params))
        (Operate True # [Timer 1000000000, ControlCommand hard_braking, Timer 2000000000]
           @ [Operate False, Timer 3000000000]))))
      = cruising\<lparr>stamp := 2000000000,
          longitudinal := \<lparr>lon_stamp = 2000000000, speed = Fin (17 / 2),
                           acceleration = Fin (- 5 / 2), jerk = Fin (- 3 / 2)\<rparr>\<rparr>"
proof -
  have mid: "Operate False \<notin> set [Timer 1000000000, ControlCommand hard_braking, Timer 2000000000]"
    "ticks [Timer 1000000000, ControlCommand hard_braking, Timer 2000000000] \<noteq> []"
    by simp_all
  have "fst (last (snd (run grid (onControlCommand cruising (MrmEmergencyStopOperator default_params))
          (Operate True # [Timer 1000000000, ControlCommand hard_braking, Timer 2000000000])))) =
        cruising\<lparr>stamp := 2000000000,
          longitudinal := \<lparr>lon_stamp = 2000000000, speed = Fin (17 / 2),
                           acceleration = Fin (- 5 / 2), jerk = Fin (- 3 / 2)\<rparr>\<rparr>"
    by (simp add: eval_defs grid_def round_def)
  with mid deactivation_republishes_last_ramp_output [OF mid, where ?f32.0 = grid
      and s = "onControlCommand cruising (MrmEmergencyStopOperator default_params)"
      and t = 3000000000]
  show ?thesis by simp
qed

subsection \<open>C2: the stamps of the ramp's output\<close>

text \<open>
  Claim C2. The claim wants all three stamps of the ramp's output to be the current
  time, on both paths. The bootstrap path does that (lines 111, 112, 116). The
  integration path writes the top-level and the longitudinal stamp (lines 125, 126) and
  leaves the lateral stamp of the copied command (line 122) as it came in. Here
  \<open>cruising\<close>, stamped 0, is observed and the stop is activated; the tick one second
  later publishes a command whose lateral stamp is still 0.
\<close>

theorem ramp_keeps_lateral_stamp:
  "lat_stamp (lateral (fst (hd (snd (run Fin (MrmEmergencyStopOperator default_params)
     [ControlCommand cruising, Operate True, Timer 1000000000])))))
   = 0
   \<and> stamp (fst (hd (snd (run Fin (MrmEmergencyStopOperator default_params)
     [ControlCommand cruising, Operate True, Timer 1000000000]))))
   = 1000000000
   \<and> lon_stamp (longitudinal (fst (hd (snd (run Fin (MrmEmergencyStopOperator default_params)
     [ControlCommand cruising, Operate True, Timer 1000000000])))))
   = 1000000000"
  by (simp add: eval_defs)

subsection \<open>C3: the bounds on speed and acceleration\<close>




subsection \<open>C4: a stop with no upstream command observed\<close>



subsection \<open>C5: the jerk of the ramp\<close>




subsection \<open>C6: one step of the ramp is monotone\<close>




subsection \<open>C7: an inbound upstream command\<close>

text \<open>
  Claim C7. When the state is not \<open>OPERATING\<close>, \<open>onControlCommand\<close> stores the command and
  sets the flag, and leaves the parameters, the status and the snapshot alone; when the
  state is \<open>OPERATING\<close>, it changes nothing at all.
\<close>

theorem onControlCommand_frame:
  "(state (status s) \<noteq> OPERATING \<longrightarrow>
      prev_control_cmd (onControlCommand msg s) = msg
      \<and> is_prev_control_cmd_subscribed (onControlCommand msg s)
      \<and> params (onControlCommand msg s) = params s
      \<and> status (onControlCommand msg s) = status s
      \<and> lateral_cmd_at_start_of_emergency_stop (onControlCommand msg s)
          = lateral_cmd_at_start_of_emergency_stop s)
   \<and> (state (status s) = OPERATING \<longrightarrow> onControlCommand msg s = s)"
  by (simp add: onControlCommand_def)

text \<open>An instance of each case: a fresh node, and the same node once activated.\<close>

theorem onControlCommand_frame_witness:
  "state (status (MrmEmergencyStopOperator default_params)) \<noteq> OPERATING
   \<and> onControlCommand cruising (MrmEmergencyStopOperator default_params)
      = (MrmEmergencyStopOperator default_params)
          \<lparr>prev_control_cmd := cruising, is_prev_control_cmd_subscribed := True\<rparr>
   \<and> state (status (fst (operateEmergencyStop True (MrmEmergencyStopOperator default_params))))
      = OPERATING
   \<and> onControlCommand cruising
        (fst (operateEmergencyStop True (MrmEmergencyStopOperator default_params)))
      = fst (operateEmergencyStop True (MrmEmergencyStopOperator default_params))"
proof -
  let ?a = "MrmEmergencyStopOperator default_params"
  let ?b = "fst (operateEmergencyStop True ?a)"
  have a: "state (status ?a) \<noteq> OPERATING" and b: "state (status ?b) = OPERATING"
    by (simp_all add: MrmEmergencyStopOperator_def operateEmergencyStop_def Let_def)
  from onControlCommand_frame [of ?a cruising] a
  have "prev_control_cmd (onControlCommand cruising ?a) = cruising"
    "is_prev_control_cmd_subscribed (onControlCommand cruising ?a)"
    "params (onControlCommand cruising ?a) = params ?a"
    "status (onControlCommand cruising ?a) = status ?a"
    "lateral_cmd_at_start_of_emergency_stop (onControlCommand cruising ?a)
       = lateral_cmd_at_start_of_emergency_stop ?a"
    by blast+
  then have "onControlCommand cruising ?a
      = ?a\<lparr>prev_control_cmd := cruising, is_prev_control_cmd_subscribed := True\<rparr>"
    by (intro node.equality) simp_all
  moreover from onControlCommand_frame [of ?b cruising] b
  have "onControlCommand cruising ?b = ?b" by blast
  ultimately show ?thesis using a b by blast
qed

subsection \<open>C8: activating twice\<close>

text \<open>
  Claim C8. From any node: after an activation, any events but a deactivation (ticks,
  inbound commands, further activations) and a second activation, the status and the
  snapshot \<^verbatim>\<open>lateral_cmd_at_start_of_emergency_stop_\<close> are what they were right after the
  first activation. The second activation does run the snapshot logic again; it writes
  what is there.
\<close>

theorem second_activation_idempotent:
  assumes "Operate False \<notin> set mid"
  shows "status (fst (run f32 s (Operate True # mid @ [Operate True])))
           = status (fst (run f32 s [Operate True]))
       \<and> lateral_cmd_at_start_of_emergency_stop
           (fst (run f32 s (Operate True # mid @ [Operate True])))
           = lateral_cmd_at_start_of_emergency_stop (fst (run f32 s [Operate True]))"
proof -
  let ?s1 = "fst (operateEmergencyStop True s)"
  have "frozen ?s1 (fst (run f32 ?s1 mid))"
    using frozen_activate assms by (rule frozen_run)
  from frozen_reactivate [OF this] show ?thesis
    by (simp add: fst_run_Cons fst_run_append del: run.simps(2))
qed

text \<open>
  An instance: \<open>cruising\<close> was observed; between the two activations two ticks run and a
  command arrives. The snapshot is the lateral part of \<open>cruising\<close> both times.
\<close>

theorem second_activation_idempotent_witness:
  "Operate False \<notin> set [Timer 1000000000, ControlCommand hard_braking, Timer 2000000000]
   \<and> status (fst (run grid (onControlCommand cruising (MrmEmergencyStopOperator default_params))
        [Operate True])) = \<lparr>status_stamp = 0, state = OPERATING\<rparr>
   \<and> lateral_cmd_at_start_of_emergency_stop
        (fst (run grid (onControlCommand cruising (MrmEmergencyStopOperator default_params))
           [Operate True])) = lateral cruising
   \<and> status (fst (run grid (onControlCommand cruising (MrmEmergencyStopOperator default_params))
        (Operate True # [Timer 1000000000, ControlCommand hard_braking, Timer 2000000000]
           @ [Operate True]))) = \<lparr>status_stamp = 0, state = OPERATING\<rparr>
   \<and> lateral_cmd_at_start_of_emergency_stop
        (fst (run grid (onControlCommand cruising (MrmEmergencyStopOperator default_params))
           (Operate True # [Timer 1000000000, ControlCommand hard_braking, Timer 2000000000]
              @ [Operate True]))) = lateral cruising"
proof -
  let ?s = "onControlCommand cruising (MrmEmergencyStopOperator default_params)"
  have mid: "Operate False \<notin> set [Timer 1000000000, ControlCommand hard_braking, Timer 2000000000]"
    by simp
  have first: "status (fst (run grid ?s [Operate True])) = \<lparr>status_stamp = 0, state = OPERATING\<rparr>"
    "lateral_cmd_at_start_of_emergency_stop (fst (run grid ?s [Operate True])) = lateral cruising"
    by (simp_all add: eval_defs)
  from second_activation_idempotent [OF mid, where ?f32.0 = grid and s = "?s"] mid first
  show ?thesis by simp
qed

subsection \<open>C9: the state changes on a request only\<close>

text \<open>
  Claim C9. The constructor leaves the node \<open>AVAILABLE\<close>, and neither a timer tick nor
  an inbound upstream command changes the state, whatever the node holds: only
  \<open>operateEmergencyStop\<close> is left to change it. So the state at the end of an execution
  from the fresh node is the state at the end of its requests alone, with every tick
  and every inbound command left out.
\<close>

theorem state_changes_only_on_request:
  "state (status (MrmEmergencyStopOperator p)) = AVAILABLE
   \<and> state (status (fst (onTimer f32 now s))) = state (status s)
   \<and> state (status (onControlCommand msg s)) = state (status s)
   \<and> state (status (fst (run f32 (MrmEmergencyStopOperator p) es)))
       = state (status (fst (run f32 (MrmEmergencyStopOperator p) (filter is_request es))))"
proof (intro conjI)
  show "state (status (MrmEmergencyStopOperator p)) = AVAILABLE"
    by (simp add: MrmEmergencyStopOperator_def)
  show "state (status (fst (onTimer f32 now s))) = state (status s)"
    by (simp add: onTimer_def Let_def)
  show "state (status (onControlCommand msg s)) = state (status s)"
    by (simp add: onControlCommand_def)
  show "state (status (fst (run f32 (MrmEmergencyStopOperator p) es)))
       = state (status (fst (run f32 (MrmEmergencyStopOperator p) (filter is_request es))))"
    by (rule state_run_requests) (rule refl)
qed

subsection \<open>C10: the snapshot does not reach the output\<close>

text \<open>
  Claim C10. Two executions of the same events, from nodes that differ in the field
  \<^verbatim>\<open>lateral_cmd_at_start_of_emergency_stop_\<close> only, publish the same commands (and the
  same statuses): the field is written on activation and read nowhere.
\<close>

theorem published_independent_of_snapshot:
  "snd (run f32 (s\<lparr>lateral_cmd_at_start_of_emergency_stop := v\<rparr>) es) = snd (run f32 s es)"
  using run_snapshot [where ?f32.0 = f32 and s = s and v = v and es = es] by auto

end
